theory Spec2Isabelle
  imports Main
begin

section \<open>Values, errors and the two external collaborators\<close>

text \<open>
  The web application keeps the identity of the logged-in user in the Flask session, a
  dictionary from string keys to Python values, and the user rows in a relational store.
  Both are ambient in the source (\<^verbatim>\<open>flask.session\<close>, the SQLAlchemy tables); here they
  are the components of an explicit state that every operation takes and returns.
  An operation that raises returns \<open>Inl\<close> of the exception together with the state as
  the raise left it.
\<close>

datatype pyval = PyNone | PyInt int | PyStr string

datatype error =
    IdentifierNotFound
  | NotLoggedIn
  | Unauthorized
  | APIException string
  | AttributeError string
  | ValueError

record user_row =
  row_id :: int
  row_is_administrator :: bool
  row_is_moderator :: bool

record taxon_row =
  taxon_id :: int
  author_user_id :: int

record state =
  session :: "string \<rightharpoonup> pyval"
  users_table :: "user_row list"
  orcid_table :: "string \<rightharpoonup> int"
  taxon_table :: "taxon_row list"

type_synonym 'a result = "(error + 'a) \<times> state"

text \<open>The concrete classes of \<^verbatim>\<open>website/models/core.py\<close> wrap one row each
  (\<^verbatim>\<open>self._user\<close>, \<^verbatim>\<open>self._taxon\<close>).\<close>

datatype User = User user_row

datatype Taxon = Taxon taxon_row

subsection \<open>The persistence layer\<close>

definition UsersTable_from_id :: "state \<Rightarrow> pyval \<Rightarrow> error + user_row" where
  \<comment> \<open>Modelled from the spec: \<^verbatim>\<open>alchemy_wrapper.models.User.from_id\<close> is not among the
      sources. The spec gives \<^verbatim>\<open>find_user_by_id(id) -> Row | NotFound\<close>; the exception
      is the \<^verbatim>\<open>IdentifierNotFound\<close> that \<^verbatim>\<open>from_flask_session\<close> catches. A row matches when
      its id equals the identifier as Python values.\<close>
  "UsersTable_from_id s identifier =
     (case find (\<lambda>r. PyInt (row_id r) = identifier) (users_table s) of
        None \<Rightarrow> Inl IdentifierNotFound
      | Some r \<Rightarrow> Inr r)"

definition UsersTable_delete :: "user_row \<Rightarrow> state \<Rightarrow> unit result" where
  \<comment> \<open>Modelled from the spec: the row's \<^verbatim>\<open>delete()\<close> of \<^verbatim>\<open>alchemy_wrapper\<close> is not among
      the sources. The spec gives \<^verbatim>\<open>delete_user(id)\<close>: the row whose primary id is the
      id of this row is removed from the users table.\<close>
  "UsersTable_delete r s =
     (Inr (), s\<lparr>users_table := filter (\<lambda>x. row_id x \<noteq> row_id r) (users_table s)\<rparr>)"

definition TaxonTable_delete :: "taxon_row \<Rightarrow> state \<Rightarrow> unit result" where
  \<comment> \<open>Modelled from the spec: the taxon row's \<^verbatim>\<open>delete()\<close> is not among the sources.
      The spec delegates removal to the store's delete-by-id for the record's table.\<close>
  "TaxonTable_delete t s =
     (Inr (), s\<lparr>taxon_table := filter (\<lambda>x. taxon_id x \<noteq> taxon_id t) (taxon_table s)\<rparr>)"

definition fresh_user_id :: "user_row list \<Rightarrow> int" where
  \<comment> \<open>Modelled from the spec: a user id is a positive integer assigned by the store on
      creation. The store hands out one more than the largest id in the table.\<close>
  "fresh_user_id rows = 1 + fold max (map row_id rows) 0"

definition ORCID_get_or_insert_user_from_orcid :: "string \<Rightarrow> state \<Rightarrow> int \<times> state" where
  \<comment> \<open>Modelled from the spec: \<^verbatim>\<open>alchemy_wrapper.models.ORCID.get_or_insert_user_from_orcid\<close>
      is not among the sources. The spec: look the external identifier up in the mapping;
      if present, resolve to the existing user; if absent, insert a new user row and a
      mapping row together. \<^verbatim>\<open>from_orcid\<close> reads only \<^verbatim>\<open>user.id\<close> of the returned row, so
      the model returns that id. The role flags of a new row are not given by the spec;
      a new user starts with neither role.\<close>
  "ORCID_get_or_insert_user_from_orcid orcid s =
     (case orcid_table s orcid of
        Some uid \<Rightarrow> (uid, s)
      | None \<Rightarrow>
          (let uid = fresh_user_id (users_table s);
               r = \<lparr>row_id = uid, row_is_administrator = False, row_is_moderator = False\<rparr>
           in (uid, s\<lparr>users_table := users_table s @ [r],
                      orcid_table := (orcid_table s)(orcid \<mapsto> uid)\<rparr>)))"

section \<open>The abstract user interface (\<^verbatim>\<open>enpkg_interfaces/user.py\<close>)\<close>

record user_interface =
  user_id_attr :: int

record sample =
  sample_author_user_id :: int

definition User_interface_init :: "(int \<Rightarrow> bool) \<Rightarrow> int \<Rightarrow> error + user_interface" where
  \<comment> \<open>\<^verbatim>\<open>__init__\<close>; the first argument is the subclass's \<^verbatim>\<open>is_valid_user_id\<close>, which
      the abstract class leaves unimplemented.\<close>
  "User_interface_init is_valid_user_id user_id =
     (if \<not> is_valid_user_id user_id then Inl ValueError
      else Inr \<lparr>user_id_attr = user_id\<rparr>)"

definition get_user_id :: "user_interface \<Rightarrow> int" where
  "get_user_id self = user_id_attr self"

definition get_author_user_id :: "sample \<Rightarrow> int" where
  "get_author_user_id smp = sample_author_user_id smp"

definition is_author_of_sample :: "user_interface \<Rightarrow> sample \<Rightarrow> bool" where
  "is_author_of_sample self smp = (get_user_id self = get_author_user_id smp)"

section \<open>The concrete user (\<^verbatim>\<open>website/models/core.py\<close>)\<close>

definition get_id :: "User \<Rightarrow> int" where
  \<comment> \<open>Modelled from the spec: \<^verbatim>\<open>get_id\<close> is called by \<^verbatim>\<open>is_session_user\<close> and inherited
      from a base class that is not among the sources; it is the spec's \<^verbatim>\<open>get_user_id()\<close>,
      the id of the row the entity wraps.\<close>
  "get_id self = (case self of User r \<Rightarrow> row_id r)"

definition is_administrator :: "User \<Rightarrow> bool" where
  "is_administrator self = (case self of User r \<Rightarrow> row_is_administrator r)"

definition is_moderator :: "User \<Rightarrow> bool" where
  "is_moderator self = (case self of User r \<Rightarrow> row_is_moderator r)"

definition is_author_of :: "User \<Rightarrow> Taxon \<Rightarrow> bool" where
  \<comment> \<open>Modelled from the spec: \<^verbatim>\<open>Taxon.delete\<close> calls \<^verbatim>\<open>user.is_author_of(self)\<close>; the
      concrete \<^verbatim>\<open>User\<close> does not define it and the base class it would come from is not
      among the sources (\<^verbatim>\<open>enpkg_interfaces/user.py\<close> has \<^verbatim>\<open>is_author_of_sample\<close> only).
      The spec: compares own id to \<^verbatim>\<open>record.author_user_id\<close>.\<close>
  "is_author_of self record = (case record of Taxon t \<Rightarrow> get_id self = author_user_id t)"

definition User_from_id :: "pyval \<Rightarrow> state \<Rightarrow> User result" where
  "User_from_id identifier s =
     (case UsersTable_from_id s identifier of
        Inl e \<Rightarrow> (Inl e, s)
      | Inr r \<Rightarrow> (Inr (User r), s))"

definition logout :: "state \<Rightarrow> unit result" where
  \<comment> \<open>\<^verbatim>\<open>session.pop("user_id", None)\<close>: with a default, \<^verbatim>\<open>pop\<close> never raises.\<close>
  "logout s = (Inr (), s\<lparr>session := (session s)(''user_id'' := None)\<rparr>)"

definition is_authenticated :: "state \<Rightarrow> bool" where
  "is_authenticated s = (session s ''user_id'' \<noteq> None)"

definition session_get :: "state \<Rightarrow> string \<Rightarrow> pyval \<Rightarrow> pyval" where
  \<comment> \<open>\<^verbatim>\<open>session.get(key, default)\<close>\<close>
  "session_get s k d = (case session s k of None \<Rightarrow> d | Some v \<Rightarrow> v)"

definition session_user_id :: "state \<Rightarrow> error + pyval" where
  "session_user_id s =
     (if \<not> is_authenticated s then Inl NotLoggedIn
      else Inr (session_get s ''user_id'' PyNone))"

definition from_flask_session :: "state \<Rightarrow> User option result" where
  \<comment> \<open>The \<^verbatim>\<open>except IdentifierNotFound\<close> branch logs out and then falls off the end of
      the function: the call returns \<^verbatim>\<open>None\<close>. \<^verbatim>\<open>NotLoggedIn\<close> is not caught.\<close>
  "from_flask_session s =
     (case session_user_id s of
        Inl e \<Rightarrow> (Inl e, s)
      | Inr v \<Rightarrow>
          (case User_from_id v s of
             (Inr u, s') \<Rightarrow> (Inr (Some u), s')
           | (Inl e, s') \<Rightarrow>
               (if e = IdentifierNotFound
                then (case logout s' of (_, s'') \<Rightarrow> (Inr None, s''))
                else (Inl e, s'))))"

definition from_orcid :: "string \<Rightarrow> state \<Rightarrow> User result" where
  "from_orcid orcid s =
     (if is_authenticated s then (Inl (APIException ''User is already logged in.''), s)
      else
        (case ORCID_get_or_insert_user_from_orcid orcid s of
           (uid, s1) \<Rightarrow>
             User_from_id (PyInt uid)
               (s1\<lparr>session := (session s1)(''user_id'' \<mapsto> PyInt uid)\<rparr>)))"

definition is_session_user :: "User \<Rightarrow> state \<Rightarrow> error + bool" where
  "is_session_user self s =
     (case session_user_id s of
        Inl e \<Rightarrow> Inl e
      | Inr v \<Rightarrow> Inr (PyInt (get_id self) = v))"

definition get_session_user_language :: "state \<Rightarrow> pyval" where
  "get_session_user_language s = session_get s ''lang'' (PyStr ''en'')"

definition must_be_administrator :: "state \<Rightarrow> unit result" where
  \<comment> \<open>Calling a method on the \<^verbatim>\<open>None\<close> that \<^verbatim>\<open>from_flask_session\<close> may return raises
      \<^verbatim>\<open>AttributeError\<close>.\<close>
  "must_be_administrator s =
     (case from_flask_session s of
        (Inl e, s') \<Rightarrow> (Inl e, s')
      | (Inr None, s') \<Rightarrow> (Inl (AttributeError ''is_administrator''), s')
      | (Inr (Some u), s') \<Rightarrow>
          (if \<not> is_administrator u then (Inl Unauthorized, s') else (Inr (), s')))"

definition must_be_moderator :: "state \<Rightarrow> unit result" where
  "must_be_moderator s =
     (case from_flask_session s of
        (Inl e, s') \<Rightarrow> (Inl e, s')
      | (Inr None, s') \<Rightarrow> (Inl (AttributeError ''is_moderator''), s')
      | (Inr (Some u), s') \<Rightarrow>
          (if \<not> is_moderator u then (Inl Unauthorized, s') else (Inr (), s')))"

definition User_delete :: "User \<Rightarrow> state \<Rightarrow> unit result" where
  "User_delete self s =
     (case is_session_user self s of
        Inl e \<Rightarrow> (Inl e, s)
      | Inr b \<Rightarrow>
          (if \<not> b then
             (case must_be_administrator s of
                (Inl e, s') \<Rightarrow> (Inl e, s')
              | (Inr _, s') \<Rightarrow> (case self of User r \<Rightarrow> UsersTable_delete r s'))
           else (case self of User r \<Rightarrow> UsersTable_delete r s)))"

section \<open>The concrete taxon\<close>

definition Taxon_delete :: "Taxon \<Rightarrow> state \<Rightarrow> unit result" where
  "Taxon_delete self s =
     (case from_flask_session s of
        (Inl e, s') \<Rightarrow> (Inl e, s')
      | (Inr None, s') \<Rightarrow> (Inl (AttributeError ''is_administrator''), s')
      | (Inr (Some user), s') \<Rightarrow>
          (if \<not> is_administrator user \<and> \<not> is_author_of user self
           then (Inl Unauthorized, s')
           else (case self of Taxon t \<Rightarrow> TaxonTable_delete t s')))"

section \<open>The authorization guard, as the spec words it\<close>

definition author_or_administrator :: "User \<Rightarrow> int \<Rightarrow> bool" where
  \<comment> \<open>The spec's delete/mutate authorization: the current session user is the author
      (owner) of the record, or the current session user is an administrator. It is not a
      function of the source; the two delete paths are compared with it below.\<close>
  "author_or_administrator session_user author_id =
     (get_id session_user = author_id \<or> is_administrator session_user)"

section \<open>A small store for the concrete instances\<close>

text \<open>
  The scenario of the spec: user 7 (no role) is the author of a taxon, user 9 is another
  user without the administrator role, user 1 is an administrator.
\<close>

abbreviation alice :: user_row where
  "alice \<equiv> \<lparr>row_id = 7, row_is_administrator = False, row_is_moderator = False\<rparr>"
abbreviation bob :: user_row where
  "bob \<equiv> \<lparr>row_id = 9, row_is_administrator = False, row_is_moderator = True\<rparr>"
abbreviation root :: user_row where
  "root \<equiv> \<lparr>row_id = 1, row_is_administrator = True, row_is_moderator = False\<rparr>"
abbreviation taxon_T :: taxon_row where
  "taxon_T \<equiv> \<lparr>taxon_id = 3, author_user_id = 7\<rparr>"

abbreviation example_state :: "int option \<Rightarrow> state" where
  "example_state uid \<equiv>
     \<lparr>session = (case uid of None \<Rightarrow> [''lang'' \<mapsto> PyStr ''fr'']
                 | Some i \<Rightarrow> [''lang'' \<mapsto> PyStr ''fr'', ''user_id'' \<mapsto> PyInt i]),
      users_table = [root, alice, bob],
      orcid_table = [''0000-0002-1825-0097'' \<mapsto> 7],
      taxon_table = [taxon_T]\<rparr>"

text \<open>A user that the store creates next: the largest id in the table is 9.\<close>

abbreviation carol :: user_row where
  "carol \<equiv> \<lparr>row_id = 10, row_is_administrator = False, row_is_moderator = False\<rparr>"

section \<open>Lemmas about lookup and session resolution\<close>

lemma find_row_by_id:
  "user_id \<in> row_id ` set rows \<Longrightarrow>
   \<exists>r. find (\<lambda>r. row_id r = user_id) rows = Some r \<and> row_id r = user_id"
  by (induction rows) auto

lemma find_row_absent:
  "user_id \<notin> row_id ` set rows \<Longrightarrow>
   find (\<lambda>r. row_id r = user_id) rows = None"
  by (induction rows) auto

lemma UsersTable_from_id_Inr:
  "UsersTable_from_id s v = Inr r \<Longrightarrow> v = PyInt (row_id r) \<and> r \<in> set (users_table s)"
  by (auto simp: UsersTable_from_id_def find_Some_iff split: option.splits)

lemma User_from_id_state: "snd (User_from_id identifier s) = s"
  by (simp add: User_from_id_def split: sum.splits)

lemma from_flask_session_valid:
  "session s ''user_id'' = Some v \<Longrightarrow> UsersTable_from_id s v = Inr r \<Longrightarrow>
   from_flask_session s = (Inr (Some (User r)), s)"
  by (simp add: from_flask_session_def session_user_id_def is_authenticated_def
      session_get_def User_from_id_def)

lemma fold_max_bounds:
  "(a::int) \<le> fold max xs a \<and> (\<forall>x \<in> set xs. x \<le> fold max xs a)"
proof (induction xs arbitrary: a)
  case Nil
  show ?case by simp
next
  case (Cons y ys)
  from Cons [of "max y a"] show ?case by auto
qed

lemma fresh_user_id_greater: "r \<in> set rows \<Longrightarrow> row_id r < fresh_user_id rows"
  using fold_max_bounds [of 0 "map row_id rows"] by (auto simp: fresh_user_id_def)

lemma find_snoc_new:
  "find P xs = None \<Longrightarrow> P y \<Longrightarrow> find P (xs @ [y]) = Some y"
  by (induction xs) (auto split: if_splits)

lemma find_fresh_row:
  "row_id new = fresh_user_id rows \<Longrightarrow>
   find (\<lambda>r. row_id r = fresh_user_id rows) (rows @ [new]) = Some new"
proof -
  assume n: "row_id new = fresh_user_id rows"
  have "find (\<lambda>r. row_id r = fresh_user_id rows) rows = None"
    using fresh_user_id_greater [of _ rows] by (fastforce simp: find_None_iff)
  then show ?thesis using n by (simp add: find_snoc_new)
qed

section \<open>Lookup by identifier\<close>

text \<open>
  Claim C5. For every user id present in the users table, \<^verbatim>\<open>from_id\<close> succeeds and the
  entity it returns carries that id; for every user id absent from the table it fails with
  \<^verbatim>\<open>IdentifierNotFound\<close> (the spec's NotFound); and whatever the identifier, the call
  leaves the store and the session as they were. The accessor of the concrete entity is
  \<^verbatim>\<open>get_id\<close>; the abstract interface's constructor and \<^verbatim>\<open>get_user_id\<close> agree: an
  interface object built from a valid id answers that id.
\<close>

theorem from_id_lookup:
  "(user_id \<in> row_id ` set (users_table s) \<longrightarrow>
      (\<exists>u. User_from_id (PyInt user_id) s = (Inr u, s) \<and> get_id u = user_id))
   \<and> (user_id \<notin> row_id ` set (users_table s) \<longrightarrow>
      User_from_id (PyInt user_id) s = (Inl IdentifierNotFound, s))
   \<and> snd (User_from_id identifier s) = s
   \<and> (is_valid_user_id user_id \<longrightarrow>
      (\<exists>a. User_interface_init is_valid_user_id user_id = Inr a \<and> get_user_id a = user_id))"
proof (intro conjI impI)
  assume "user_id \<in> row_id ` set (users_table s)"
  then obtain r where "find (\<lambda>r. row_id r = user_id) (users_table s) = Some r"
    and "row_id r = user_id"
    using find_row_by_id by blast
  then show "\<exists>u. User_from_id (PyInt user_id) s = (Inr u, s) \<and> get_id u = user_id"
    by (simp add: User_from_id_def UsersTable_from_id_def get_id_def)
next
  assume "user_id \<notin> row_id ` set (users_table s)"
  then show "User_from_id (PyInt user_id) s = (Inl IdentifierNotFound, s)"
    by (simp add: User_from_id_def UsersTable_from_id_def find_row_absent)
next
  show "snd (User_from_id identifier s) = s" by (rule User_from_id_state)
next
  assume "is_valid_user_id user_id"
  then show "\<exists>a. User_interface_init is_valid_user_id user_id = Inr a \<and> get_user_id a = user_id"
    by (simp add: User_interface_init_def get_user_id_def)
qed

theorem from_id_lookup_witness:
  "(7::int) \<in> row_id ` set (users_table (example_state None))
   \<and> User_from_id (PyInt 7) (example_state None) = (Inr (User alice), example_state None)
   \<and> (8::int) \<notin> row_id ` set (users_table (example_state None))
   \<and> User_from_id (PyInt 8) (example_state None) = (Inl IdentifierNotFound, example_state None)
   \<and> User_interface_init (\<lambda>i. i = 7) 7 = Inr \<lparr>user_id_attr = 7\<rparr>"
  using from_id_lookup [of 7 "example_state None" "PyInt 7" "\<lambda>i. i = 7"]
    from_id_lookup [of 8 "example_state None" "PyInt 8" "\<lambda>i. i = 7"]
  by (simp add: User_from_id_def UsersTable_from_id_def User_interface_init_def)

section \<open>Role guards\<close>

text \<open>
  Claim C8. When the session's user id resolves to a user of the store,
  \<^verbatim>\<open>must_be_administrator()\<close> returns without error if that user is an administrator and
  fails with \<^verbatim>\<open>Unauthorized\<close> if not, and \<^verbatim>\<open>must_be_moderator()\<close> does the same with the
  moderator flag; neither changes the state.
\<close>

theorem must_be_role:
  assumes "session s ''user_id'' = Some v" and "UsersTable_from_id s v = Inr r"
  shows "must_be_administrator s =
           (if is_administrator (User r) then (Inr (), s) else (Inl Unauthorized, s))
         \<and> must_be_moderator s =
           (if is_moderator (User r) then (Inr (), s) else (Inl Unauthorized, s))"
  using from_flask_session_valid [OF assms]
  by (simp add: must_be_administrator_def must_be_moderator_def)

theorem must_be_role_witness:
  "must_be_administrator (example_state (Some 1)) = (Inr (), example_state (Some 1))
   \<and> must_be_moderator (example_state (Some 1)) = (Inl Unauthorized, example_state (Some 1))
   \<and> must_be_administrator (example_state (Some 9)) = (Inl Unauthorized, example_state (Some 9))
   \<and> must_be_moderator (example_state (Some 9)) = (Inr (), example_state (Some 9))"
proof -
  have a: "session (example_state (Some 1)) ''user_id'' = Some (PyInt 1)" by simp
  have b: "UsersTable_from_id (example_state (Some 1)) (PyInt 1) = Inr root"
    by (simp add: UsersTable_from_id_def)
  have c: "session (example_state (Some 9)) ''user_id'' = Some (PyInt 9)" by simp
  have d: "UsersTable_from_id (example_state (Some 9)) (PyInt 9) = Inr bob"
    by (simp add: UsersTable_from_id_def)
  from must_be_role [OF a b] must_be_role [OF c d] show ?thesis
    by (simp add: is_administrator_def is_moderator_def)
qed

section \<open>Deleting records\<close>

text \<open>
  Claim C1. When the session's user id resolves to a user of the store, deleting a user
  record succeeds, removing the row, if the session user is that user or is an
  administrator, and fails with \<^verbatim>\<open>Unauthorized\<close> otherwise; deleting a taxon succeeds,
  removing the row, if the session user is the taxon's author or is an administrator, and
  fails with \<^verbatim>\<open>Unauthorized\<close> otherwise. Both paths decide by the same author-or-administrator
  predicate.
\<close>

theorem delete_author_or_admin:
  assumes "session s ''user_id'' = Some v" and "UsersTable_from_id s v = Inr su"
  shows "User_delete (User r) s =
           (if author_or_administrator (User su) (row_id r)
            then (Inr (), s\<lparr>users_table := filter (\<lambda>x. row_id x \<noteq> row_id r) (users_table s)\<rparr>)
            else (Inl Unauthorized, s))
         \<and> Taxon_delete (Taxon t) s =
           (if author_or_administrator (User su) (author_user_id t)
            then (Inr (), s\<lparr>taxon_table := filter (\<lambda>x. taxon_id x \<noteq> taxon_id t) (taxon_table s)\<rparr>)
            else (Inl Unauthorized, s))"
proof -
  have v: "v = PyInt (row_id su)" using UsersTable_from_id_Inr [OF assms(2)] by simp
  have fs: "from_flask_session s = (Inr (Some (User su)), s)"
    by (rule from_flask_session_valid [OF assms])
  have ss: "is_session_user (User r) s = Inr (row_id r = row_id su)"
    using assms(1) v
    by (simp add: is_session_user_def session_user_id_def is_authenticated_def
        session_get_def get_id_def)
  have u: "User_delete (User r) s =
           (if author_or_administrator (User su) (row_id r)
            then (Inr (), s\<lparr>users_table := filter (\<lambda>x. row_id x \<noteq> row_id r) (users_table s)\<rparr>)
            else (Inl Unauthorized, s))"
    using ss fs
    by (auto simp: User_delete_def must_be_administrator_def UsersTable_delete_def
        author_or_administrator_def get_id_def)
  have t: "Taxon_delete (Taxon t) s =
           (if author_or_administrator (User su) (author_user_id t)
            then (Inr (), s\<lparr>taxon_table := filter (\<lambda>x. taxon_id x \<noteq> taxon_id t) (taxon_table s)\<rparr>)
            else (Inl Unauthorized, s))"
    using fs
    by (auto simp: Taxon_delete_def TaxonTable_delete_def is_author_of_def
        author_or_administrator_def get_id_def)
  from u t show ?thesis by simp
qed

theorem delete_author_or_admin_witness:
  "User_delete (User alice) (example_state (Some 7)) =
     (Inr (), (example_state (Some 7))\<lparr>users_table := [root, bob]\<rparr>)
   \<and> User_delete (User alice) (example_state (Some 9)) = (Inl Unauthorized, example_state (Some 9))
   \<and> User_delete (User alice) (example_state (Some 1)) =
     (Inr (), (example_state (Some 1))\<lparr>users_table := [root, bob]\<rparr>)
   \<and> Taxon_delete (Taxon taxon_T) (example_state (Some 7)) =
     (Inr (), (example_state (Some 7))\<lparr>taxon_table := []\<rparr>)
   \<and> Taxon_delete (Taxon taxon_T) (example_state (Some 9)) = (Inl Unauthorized, example_state (Some 9))
   \<and> Taxon_delete (Taxon taxon_T) (example_state (Some 1)) =
     (Inr (), (example_state (Some 1))\<lparr>taxon_table := []\<rparr>)"
proof -
  have a: "session (example_state (Some 7)) ''user_id'' = Some (PyInt 7)" by simp
  have a': "UsersTable_from_id (example_state (Some 7)) (PyInt 7) = Inr alice"
    by (simp add: UsersTable_from_id_def)
  have b: "session (example_state (Some 9)) ''user_id'' = Some (PyInt 9)" by simp
  have b': "UsersTable_from_id (example_state (Some 9)) (PyInt 9) = Inr bob"
    by (simp add: UsersTable_from_id_def)
  have c: "session (example_state (Some 1)) ''user_id'' = Some (PyInt 1)" by simp
  have c': "UsersTable_from_id (example_state (Some 1)) (PyInt 1) = Inr root"
    by (simp add: UsersTable_from_id_def)
  from delete_author_or_admin [OF a a', of alice taxon_T]
    delete_author_or_admin [OF b b', of alice taxon_T]
    delete_author_or_admin [OF c c', of alice taxon_T]
  show ?thesis
    by (simp add: author_or_administrator_def get_id_def is_administrator_def)
qed

text \<open>
  Claim C3. \<^verbatim>\<open>is_author_of\<close> answers true exactly when the user's id equals the record's
  author id. The interface's \<^verbatim>\<open>is_author_of_sample\<close> is the same comparison through the
  two accessors, and the two agree. The taxon delete path decides by it: for a session
  user who is not an administrator, deleting the taxon succeeds exactly when
  \<^verbatim>\<open>is_author_of\<close> holds and fails with \<^verbatim>\<open>Unauthorized\<close> exactly when it does not.
\<close>

theorem is_author_of_compares_ids:
  "is_author_of u (Taxon t) = (get_id u = author_user_id t)
   \<and> is_author_of_sample a smp = (get_user_id a = get_author_user_id smp)
   \<and> is_author_of u (Taxon t) =
       is_author_of_sample \<lparr>user_id_attr = get_id u\<rparr> \<lparr>sample_author_user_id = author_user_id t\<rparr>
   \<and> (session s ''user_id'' = Some v \<and> UsersTable_from_id s v = Inr su
        \<and> \<not> is_administrator (User su) \<longrightarrow>
       (fst (Taxon_delete (Taxon t) s) = Inr ()) = is_author_of (User su) (Taxon t)
       \<and> (fst (Taxon_delete (Taxon t) s) = Inl Unauthorized) = (\<not> is_author_of (User su) (Taxon t)))"
proof (intro conjI impI)
  show "is_author_of u (Taxon t) = (get_id u = author_user_id t)"
    by (simp add: is_author_of_def)
  show "is_author_of_sample a smp = (get_user_id a = get_author_user_id smp)"
    by (simp add: is_author_of_sample_def)
  show "is_author_of u (Taxon t) =
       is_author_of_sample \<lparr>user_id_attr = get_id u\<rparr> \<lparr>sample_author_user_id = author_user_id t\<rparr>"
    by (simp add: is_author_of_def is_author_of_sample_def get_user_id_def get_author_user_id_def)
next
  assume h: "session s ''user_id'' = Some v \<and> UsersTable_from_id s v = Inr su
        \<and> \<not> is_administrator (User su)"
  then have fs: "from_flask_session s = (Inr (Some (User su)), s)"
    using from_flask_session_valid by blast
  from h fs show "(fst (Taxon_delete (Taxon t) s) = Inr ()) = is_author_of (User su) (Taxon t)"
    by (simp add: Taxon_delete_def TaxonTable_delete_def)
  from h fs show "(fst (Taxon_delete (Taxon t) s) = Inl Unauthorized) = (\<not> is_author_of (User su) (Taxon t))"
    by (simp add: Taxon_delete_def TaxonTable_delete_def)
qed

theorem is_author_of_compares_ids_witness:
  "is_author_of (User alice) (Taxon taxon_T) \<and> \<not> is_author_of (User bob) (Taxon taxon_T)
   \<and> fst (Taxon_delete (Taxon taxon_T) (example_state (Some 7))) = Inr ()
   \<and> fst (Taxon_delete (Taxon taxon_T) (example_state (Some 9))) = Inl Unauthorized"
proof -
  have a: "session (example_state (Some 7)) ''user_id'' = Some (PyInt 7)
      \<and> UsersTable_from_id (example_state (Some 7)) (PyInt 7) = Inr alice
      \<and> \<not> is_administrator (User alice)"
    by (simp add: UsersTable_from_id_def is_administrator_def)
  have b: "session (example_state (Some 9)) ''user_id'' = Some (PyInt 9)
      \<and> UsersTable_from_id (example_state (Some 9)) (PyInt 9) = Inr bob
      \<and> \<not> is_administrator (User bob)"
    by (simp add: UsersTable_from_id_def is_administrator_def)
  have c: "is_author_of (User alice) (Taxon taxon_T)" "\<not> is_author_of (User bob) (Taxon taxon_T)"
    by (simp_all add: is_author_of_def get_id_def)
  from is_author_of_compares_ids [of "User alice" taxon_T _ _ "example_state (Some 7)" "PyInt 7" alice]
    is_author_of_compares_ids [of "User bob" taxon_T _ _ "example_state (Some 9)" "PyInt 9" bob]
    a b c
  show ?thesis by blast
qed

section \<open>Resolving the session user\<close>

text \<open>
  Claim C2. With no user id in the session, \<^verbatim>\<open>from_flask_session\<close> fails with
  \<^verbatim>\<open>NotLoggedIn\<close> and changes nothing. With a user id that no row of the store carries
  (here 5), it clears the session's user id, but then it does not fail: the handler of
  \<^verbatim>\<open>IdentifierNotFound\<close> ends after the logout, so the call returns \<^verbatim>\<open>None\<close>, which is
  neither a user entity nor a \<^verbatim>\<open>NotLoggedIn\<close> failure. A caller such as
  \<^verbatim>\<open>must_be_administrator\<close> then fails on the \<^verbatim>\<open>None\<close> with \<^verbatim>\<open>AttributeError\<close>.
\<close>

theorem from_flask_session_stale_id:
  "from_flask_session (example_state None) = (Inl NotLoggedIn, example_state None)
   \<and> fst (from_flask_session (example_state (Some 5))) = Inr None
   \<and> session (snd (from_flask_session (example_state (Some 5)))) ''user_id'' = None
   \<and> fst (must_be_administrator (example_state (Some 5))) = Inl (AttributeError ''is_administrator'')"
  by (simp add: from_flask_session_def session_user_id_def is_authenticated_def session_get_def
      User_from_id_def UsersTable_from_id_def logout_def must_be_administrator_def)

section \<open>Login by external identifier\<close>

text \<open>
  Claim C4. If the session already holds a user id, \<^verbatim>\<open>from_orcid\<close> fails with the
  \<^verbatim>\<open>APIException\<close> "User is already logged in." (the spec's AlreadyAuthenticated) and
  leaves the state, the session included, as it was. Whenever it succeeds, the session was
  not logged in, the returned user's id is the id of the user that the mapping table found
  or created, and the final state is the store after that find-or-create with this id
  stored in the session under \<^verbatim>\<open>"user_id"\<close>.
\<close>

theorem from_orcid_session:
  "(is_authenticated s \<longrightarrow>
      from_orcid orcid s = (Inl (APIException ''User is already logged in.''), s))
   \<and> (from_orcid orcid s = (Inr u, s') \<longrightarrow>
      \<not> is_authenticated s
      \<and> get_id u = fst (ORCID_get_or_insert_user_from_orcid orcid s)
      \<and> session s' ''user_id'' = Some (PyInt (get_id u))
      \<and> s' = (snd (ORCID_get_or_insert_user_from_orcid orcid s))
              \<lparr>session := (session (snd (ORCID_get_or_insert_user_from_orcid orcid s)))
                            (''user_id'' \<mapsto> PyInt (get_id u))\<rparr>)"
proof (intro conjI impI)
  assume "is_authenticated s"
  then show "from_orcid orcid s = (Inl (APIException ''User is already logged in.''), s)"
    by (simp add: from_orcid_def)
next
  assume ok: "from_orcid orcid s = (Inr u, s')"
  show na: "\<not> is_authenticated s"
    using ok by (auto simp: from_orcid_def)
  obtain uid s1 where g: "ORCID_get_or_insert_user_from_orcid orcid s = (uid, s1)"
    by (cases "ORCID_get_or_insert_user_from_orcid orcid s")
  let ?s2 = "s1\<lparr>session := (session s1)(''user_id'' \<mapsto> PyInt uid)\<rparr>"
  from ok na g have f: "User_from_id (PyInt uid) ?s2 = (Inr u, s')"
    by (simp add: from_orcid_def)
  then have s': "s' = ?s2"
    using User_from_id_state [of "PyInt uid" ?s2] by simp
  from f obtain r where r: "UsersTable_from_id ?s2 (PyInt uid) = Inr r" and u: "u = User r"
    by (auto simp: User_from_id_def split: sum.splits)
  from UsersTable_from_id_Inr [OF r] u have id: "get_id u = uid"
    by (simp add: get_id_def)
  show "get_id u = fst (ORCID_get_or_insert_user_from_orcid orcid s)"
    using id g by simp
  show "session s' ''user_id'' = Some (PyInt (get_id u))"
    using s' id by simp
  show "s' = (snd (ORCID_get_or_insert_user_from_orcid orcid s))
              \<lparr>session := (session (snd (ORCID_get_or_insert_user_from_orcid orcid s)))
                            (''user_id'' \<mapsto> PyInt (get_id u))\<rparr>"
    using s' id g by simp
qed

theorem from_orcid_session_witness:
  "is_authenticated (example_state (Some 9))
   \<and> from_orcid ''0000-0002-1825-0097'' (example_state (Some 9)) =
       (Inl (APIException ''User is already logged in.''), example_state (Some 9))
   \<and> from_orcid ''0000-0002-1825-0097'' (example_state None) =
       (Inr (User alice), (example_state None)
          \<lparr>session := (session (example_state None))(''user_id'' \<mapsto> PyInt 7)\<rparr>)
   \<and> session ((example_state None)
          \<lparr>session := (session (example_state None))(''user_id'' \<mapsto> PyInt 7)\<rparr>) ''user_id''
       = Some (PyInt (get_id (User alice)))"
proof -
  have a: "is_authenticated (example_state (Some 9))"
    by (simp add: is_authenticated_def)
  have b: "from_orcid ''0000-0002-1825-0097'' (example_state None) =
       (Inr (User alice), (example_state None)
          \<lparr>session := (session (example_state None))(''user_id'' \<mapsto> PyInt 7)\<rparr>)"
    by (simp add: from_orcid_def is_authenticated_def ORCID_get_or_insert_user_from_orcid_def
        User_from_id_def UsersTable_from_id_def)
  from from_orcid_session [where s = "example_state (Some 9)" and orcid = "''0000-0002-1825-0097''"] a
    from_orcid_session [where s = "example_state None" and orcid = "''0000-0002-1825-0097''"
      and u = "User alice"
      and s' = "(example_state None)\<lparr>session := (session (example_state None))(''user_id'' \<mapsto> PyInt 7)\<rparr>"]
    b
  show ?thesis by blast
qed

text \<open>
  Claim C6, as the source has it. For an external identifier that the mapping table does
  not hold, and a session that is not logged in, the first \<^verbatim>\<open>from_orcid\<close> succeeds: it
  creates the user with a fresh id, records the mapping and logs the session in. A second
  call in the same calling context does not succeed: the session is now logged in, so it
  fails with "User is already logged in." and changes nothing. After a logout the second
  call succeeds, returns the same user by lookup and creates nothing: the state it
  leaves is the state that the first call left.
\<close>

theorem from_orcid_twice:
  assumes "\<not> is_authenticated s" and "orcid_table s orcid = None"
  shows "(let uid = fresh_user_id (users_table s);
              new = \<lparr>row_id = uid, row_is_administrator = False, row_is_moderator = False\<rparr>;
              s1 = s\<lparr>session := (session s)(''user_id'' \<mapsto> PyInt uid),
                     users_table := users_table s @ [new],
                     orcid_table := (orcid_table s)(orcid \<mapsto> uid)\<rparr>
          in from_orcid orcid s = (Inr (User new), s1)
             \<and> from_orcid orcid s1 = (Inl (APIException ''User is already logged in.''), s1)
             \<and> from_orcid orcid (snd (logout s1)) = (Inr (User new), s1))"
proof -
  define uid where "uid = fresh_user_id (users_table s)"
  define new where "new = \<lparr>row_id = uid, row_is_administrator = False, row_is_moderator = False\<rparr>"
  define s1 where "s1 = s\<lparr>session := (session s)(''user_id'' \<mapsto> PyInt uid),
                     users_table := users_table s @ [new],
                     orcid_table := (orcid_table s)(orcid \<mapsto> uid)\<rparr>"
  have fnd: "find (\<lambda>r. row_id r = uid) (users_table s @ [new]) = Some new"
    unfolding uid_def by (rule find_fresh_row) (simp add: new_def uid_def)
  have first: "from_orcid orcid s = (Inr (User new), s1)"
    using assms fnd
    by (simp add: from_orcid_def ORCID_get_or_insert_user_from_orcid_def Let_def
        User_from_id_def UsersTable_from_id_def uid_def [symmetric] new_def [symmetric] s1_def)
  have auth: "is_authenticated s1"
    by (simp add: is_authenticated_def s1_def)
  then have second: "from_orcid orcid s1 = (Inl (APIException ''User is already logged in.''), s1)"
    by (simp add: from_orcid_def)
  have relogin: "(snd (logout s1))\<lparr>session := (session (snd (logout s1)))(''user_id'' \<mapsto> PyInt uid)\<rparr> = s1"
    by (simp add: logout_def s1_def)
  have lo: "\<not> is_authenticated (snd (logout s1))"
    by (simp add: logout_def is_authenticated_def)
  have tabs: "orcid_table (snd (logout s1)) orcid = Some uid"
    "users_table (snd (logout s1)) = users_table s @ [new]"
    by (simp_all add: logout_def s1_def)
  have third: "from_orcid orcid (snd (logout s1)) = (Inr (User new), s1)"
    using lo tabs fnd relogin
    by (simp add: from_orcid_def ORCID_get_or_insert_user_from_orcid_def
        User_from_id_def UsersTable_from_id_def)
  from first second third show ?thesis
    by (simp add: Let_def uid_def new_def s1_def)
qed

theorem from_orcid_twice_witness:
  "\<not> is_authenticated (example_state None)
   \<and> orcid_table (example_state None) ''0000-0001-5109-3700'' = None
   \<and> fst (from_orcid ''0000-0001-5109-3700'' (example_state None)) = Inr (User carol)
   \<and> fst (from_orcid ''0000-0001-5109-3700''
        (snd (logout (snd (from_orcid ''0000-0001-5109-3700'' (example_state None))))))
       = Inr (User carol)
   \<and> users_table (snd (from_orcid ''0000-0001-5109-3700''
        (snd (logout (snd (from_orcid ''0000-0001-5109-3700'' (example_state None)))))))
       = [root, alice, bob, carol]"
proof -
  have a: "\<not> is_authenticated (example_state None)" by (simp add: is_authenticated_def)
  have b: "orcid_table (example_state None) ''0000-0001-5109-3700'' = None" by simp
  have f: "fresh_user_id [root, alice, bob] = 10"
    by (simp add: fresh_user_id_def)
  from from_orcid_twice [OF a b] a b show ?thesis
    by (simp add: Let_def f)
qed

text \<open>
  Claim C6, as the spec words it, fails: in the store of the scenario, with nobody logged
  in, the first call for a never-seen identifier creates user 10, and the second call in
  the same calling context fails.
\<close>

theorem from_orcid_twice_counterexample:
  "fst (from_orcid ''0000-0001-5109-3700'' (example_state None)) = Inr (User carol)
   \<and> fst (from_orcid ''0000-0001-5109-3700''
            (snd (from_orcid ''0000-0001-5109-3700'' (example_state None))))
       = Inl (APIException ''User is already logged in.'')"
  by (simp add: from_orcid_def is_authenticated_def ORCID_get_or_insert_user_from_orcid_def
      fresh_user_id_def User_from_id_def UsersTable_from_id_def Let_def)

section \<open>Logout\<close>

text \<open>
  Claim C9. \<^verbatim>\<open>logout()\<close> is total and idempotent: from every state, also one with no
  active session, it returns without an exception; afterwards the session holds no user
  id, so \<^verbatim>\<open>is_authenticated()\<close> is false; and a second logout leaves the state that the
  first one left.
\<close>

theorem logout_total_idempotent:
  "fst (logout s) = Inr ()
   \<and> \<not> is_authenticated (snd (logout s))
   \<and> session (snd (logout s)) ''user_id'' = None
   \<and> logout (snd (logout s)) = logout s"
  by (simp add: logout_def is_authenticated_def)

text \<open>
  Claim C10. \<^verbatim>\<open>logout()\<close> removes only the key \<^verbatim>\<open>"user_id"\<close>: every other session key
  keeps its value, in particular \<^verbatim>\<open>"lang"\<close>, so \<^verbatim>\<open>get_session_user_language()\<close> answers
  the same before and after; the tables of the store are untouched as well.
\<close>

theorem logout_frame:
  "(\<forall>k. k \<noteq> ''user_id'' \<longrightarrow> session (snd (logout s)) k = session s k)
   \<and> get_session_user_language (snd (logout s)) = get_session_user_language s
   \<and> users_table (snd (logout s)) = users_table s
   \<and> orcid_table (snd (logout s)) = orcid_table s
   \<and> taxon_table (snd (logout s)) = taxon_table s"
  by (simp add: logout_def get_session_user_language_def session_get_def)

theorem logout_frame_witness:
  "''lang'' \<noteq> ''user_id''
   \<and> session (snd (logout \<lparr>session = [''user_id'' \<mapsto> PyInt 7, ''lang'' \<mapsto> PyStr ''fr''],
        users_table = [], orcid_table = Map.empty, taxon_table = []\<rparr>)) ''lang''
     = Some (PyStr ''fr'')
   \<and> get_session_user_language (snd (logout \<lparr>session = [''user_id'' \<mapsto> PyInt 7, ''lang'' \<mapsto> PyStr ''fr''],
        users_table = [], orcid_table = Map.empty, taxon_table = []\<rparr>)) = PyStr ''fr''"
  using logout_frame [of "\<lparr>session = [''user_id'' \<mapsto> PyInt 7, ''lang'' \<mapsto> PyStr ''fr''],
        users_table = [], orcid_table = Map.empty, taxon_table = []\<rparr>"]
  by (simp add: get_session_user_language_def session_get_def)

end
